theory Spec2Isabelle
  imports Complex_Main "HOL-Library.Sublist"
begin

section \<open>JavaScript values\<close>

text \<open>
  The function \<open>generateContent\<close> of \<open>src/lib/llm.js\<close> posts JSON to up to three HTTP
  providers and returns a field of the parsed reply. A parsed reply is any JSON value; a
  property read can also give \<open>undefined\<close>, which is no JSON value, so the values the
  function can resolve with are \<open>jsval\<close>. Strings are \<open>string\<close>; numbers are carried as
  rationals (the program builds the literals 0.7 and 1000 and never computes with a number).
  An object is the list of its properties after parsing, each key once.
\<close>

datatype json =
    JNull
  | JBool bool
  | JNum rat
  | JStr string
  | JArr "json list"
  | JObj "(string \<times> json) list"

datatype jsval = Undefined | Val json

text \<open>A thrown value is an \<open>Error\<close> object; the program reads only its \<open>message\<close>.\<close>

datatype js_error = JsError (message: string)

text \<open>The five property keys the program reads: \<open>.text\<close>, \<open>.choices\<close>, \<open>[0]\<close>,
  \<open>.message\<close>, \<open>.content\<close>.\<close>

datatype pkey = Text | Choices | Index0 | Message | Content

fun key_name :: "pkey \<Rightarrow> string" where
  "key_name Text = ''text''"
| "key_name Choices = ''choices''"
| "key_name Index0 = ''0''"
| "key_name Message = ''message''"
| "key_name Content = ''content''"

text \<open>
  A property read \<open>v.k\<close> or \<open>v[0]\<close>. On \<open>undefined\<close> and \<open>null\<close> it throws a TypeError,
  whose message is the engine's (the parameter \<open>te\<close>). On an object it is the property or
  \<open>undefined\<close>; on an array or a string only \<open>[0]\<close> can be there (the first element, the
  first character as a string); a number or a boolean has none of the five.
\<close>

fun get_prop :: "(jsval \<Rightarrow> pkey \<Rightarrow> string) \<Rightarrow> jsval \<Rightarrow> pkey \<Rightarrow> js_error + jsval" where
  "get_prop te Undefined k = Inl (JsError (te Undefined k))"
| "get_prop te (Val JNull) k = Inl (JsError (te (Val JNull) k))"
| "get_prop te (Val (JObj kvs)) k =
     Inr (case map_of kvs (key_name k) of None \<Rightarrow> Undefined | Some v \<Rightarrow> Val v)"
| "get_prop te (Val (JArr xs)) k =
     Inr (case k of Index0 \<Rightarrow> (case xs of [] \<Rightarrow> Undefined | x # _ \<Rightarrow> Val x) | _ \<Rightarrow> Undefined)"
| "get_prop te (Val (JStr s)) k =
     Inr (case k of Index0 \<Rightarrow> (case s of [] \<Rightarrow> Undefined | c # _ \<Rightarrow> Val (JStr [c])) | _ \<Rightarrow> Undefined)"
| "get_prop te (Val (JBool b)) k = Inr Undefined"
| "get_prop te (Val (JNum n)) k = Inr Undefined"

text \<open>A chain of reads stops at the first one that throws.\<close>

definition then_get ::
  "(jsval \<Rightarrow> pkey \<Rightarrow> string) \<Rightarrow> js_error + jsval \<Rightarrow> pkey \<Rightarrow> js_error + jsval" where
  "then_get te r k = (case r of Inl e \<Rightarrow> Inl e | Inr v \<Rightarrow> get_prop te v k)"

text \<open>\<open>data.choices[0].message.content\<close>\<close>

definition choices_content :: "(jsval \<Rightarrow> pkey \<Rightarrow> string) \<Rightarrow> json \<Rightarrow> js_error + jsval" where
  "choices_content te data =
     then_get te (then_get te (then_get te (get_prop te (Val data) Choices) Index0) Message) Content"

section \<open>The environment and the network\<close>

text \<open>\<open>process.env\<close>: each variable is a string or absent.\<close>

record env =
  LOCAL_LLM_URL :: "string option"
  USE_LOCAL_LLM :: "string option"
  USE_PYTHON_BACKEND :: "string option"
  PYTHON_SERVER_URL :: "string option"
  RAPIDAPI_KEY :: "string option"

text \<open>\<open>x || d\<close> and the truth value of \<open>x\<close>, for \<open>x\<close> a string or \<open>undefined\<close>: the empty
  string is falsy.\<close>

definition truthy :: "string option \<Rightarrow> bool" where
  "truthy x = (case x of None \<Rightarrow> False | Some s \<Rightarrow> s \<noteq> [])"

definition or_default :: "string option \<Rightarrow> string \<Rightarrow> string" where
  "or_default x d = (case x of None \<Rightarrow> d | Some s \<Rightarrow> if s = [] then d else s)"

text \<open>
  A call of \<open>fetch\<close> takes the URL and the options; the body, \<open>JSON.stringify\<close> of an object
  literal, is kept as that object. The call either rejects or resolves with a response, of
  which the program reads \<open>ok\<close>, \<open>statusText\<close> and the promises \<open>json()\<close> and \<open>text()\<close>,
  each of which can reject in turn (malformed JSON, a broken stream).
\<close>

record request =
  url :: string
  http_method :: string
  headers :: "(string \<times> string) list"
  body :: json

record response =
  ok :: bool
  statusText :: string
  resp_json :: "js_error + json"
  resp_text :: "js_error + string"

datatype fetch_outcome = Rejected js_error | Resolved response

record runtime =
  fetch :: "request \<Rightarrow> fetch_outcome"
  type_error_message :: "jsval \<Rightarrow> pkey \<Rightarrow> string"

text \<open>
  What a run does besides returning: the calls of \<open>fetch\<close>, each tagged with the call site
  in the source (lines 19, 47 and 82), and the timer of \<open>mockResponse\<close>. Console output is
  not part of the model.
\<close>

datatype site = PythonBackend | LocalLLM | RapidAPI

datatype event = Fetch site request | SetTimeout nat

type_synonym outcome = "(js_error + jsval) \<times> event list"

section \<open>The three requests\<close>

definition fixed_model :: string where
  "fixed_model = ''meta-llama/Llama-4-Scout-17B-16E-Instruct''"

definition rapid_url :: string where
  "rapid_url =
     ''https://cheapest-gpt-4-turbo-gpt-4-vision-chatgpt-openai-ai-api.p.rapidapi.com/v1/chat/completions''"

definition rapid_host :: string where
  "rapid_host = ''cheapest-gpt-4-turbo-gpt-4-vision-chatgpt-openai-ai-api.p.rapidapi.com''"

definition messages :: "string \<Rightarrow> string \<Rightarrow> json" where
  "messages systemPrompt userMessage =
     JArr [JObj [(''role'', JStr ''system''), (''content'', JStr systemPrompt)],
           JObj [(''role'', JStr ''user''), (''content'', JStr userMessage)]]"

definition python_request :: "string \<Rightarrow> string \<Rightarrow> string \<Rightarrow> request" where
  "python_request pythonUrl systemPrompt userMessage =
     \<lparr>url = pythonUrl, http_method = ''POST'',
      headers = [(''Content-Type'', ''application/json'')],
      body = JObj [(''prompt'', JStr userMessage), (''system_prompt'', JStr systemPrompt)]\<rparr>"

definition local_request :: "string \<Rightarrow> string \<Rightarrow> string \<Rightarrow> string \<Rightarrow> request" where
  "local_request localUrl targetModel systemPrompt userMessage =
     \<lparr>url = localUrl, http_method = ''POST'',
      headers = [(''Content-Type'', ''application/json'')],
      body = JObj [(''model'', JStr targetModel),
                   (''messages'', messages systemPrompt userMessage),
                   (''temperature'', JNum (7 / 10))]\<rparr>"

definition rapid_request :: "string \<Rightarrow> string \<Rightarrow> string \<Rightarrow> request" where
  "rapid_request key systemPrompt userMessage =
     \<lparr>url = rapid_url, http_method = ''POST'',
      headers = [(''Content-Type'', ''application/json''),
                 (''x-rapidapi-host'', rapid_host),
                 (''x-rapidapi-key'', key)],
      body = JObj [(''messages'', messages systemPrompt userMessage),
                   (''model'', JStr ''gpt-4o''),
                   (''max_tokens'', JNum 1000),
                   (''temperature'', JNum (7 / 10))]\<rparr>"

section \<open>The three try blocks\<close>

text \<open>Each is the body of one \<open>try\<close>: \<open>Inr\<close> the value it returns, \<open>Inl\<close> the error its
  \<open>catch\<close> receives.\<close>

definition python_try :: "runtime \<Rightarrow> request \<Rightarrow> js_error + jsval" where
  "python_try rt req =
     (case fetch rt req of
        Rejected e \<Rightarrow> Inl e
      | Resolved response \<Rightarrow>
          if \<not> ok response
          then Inl (JsError (''Python Server Error: '' @ statusText response))
          else (case resp_json response of
                  Inl e \<Rightarrow> Inl e
                | Inr data \<Rightarrow> get_prop (type_error_message rt) (Val data) Text))"

definition local_try :: "runtime \<Rightarrow> request \<Rightarrow> js_error + jsval" where
  "local_try rt req =
     (case fetch rt req of
        Rejected e \<Rightarrow> Inl e
      | Resolved response \<Rightarrow>
          if \<not> ok response
          then Inl (JsError (''Local LLM Error: '' @ statusText response))
          else (case resp_json response of
                  Inl e \<Rightarrow> Inl e
                | Inr data \<Rightarrow> choices_content (type_error_message rt) data))"

definition rapid_try :: "runtime \<Rightarrow> request \<Rightarrow> js_error + jsval" where
  "rapid_try rt req =
     (case fetch rt req of
        Rejected e \<Rightarrow> Inl e
      | Resolved response \<Rightarrow>
          if \<not> ok response
          then (case resp_text response of
                  Inl e \<Rightarrow> Inl e
                | Inr err \<Rightarrow> Inl (JsError (''RapidAPI Error: '' @ err)))
          else (case resp_json response of
                  Inl e \<Rightarrow> Inl e
                | Inr data \<Rightarrow> choices_content (type_error_message rt) data))"

section \<open>The strings the function builds\<close>

definition show_bool :: "bool \<Rightarrow> string" where
  "show_bool b = (if b then ''true'' else ''false'')"

definition python_error_text :: "js_error \<Rightarrow> string" where
  "python_error_text error =
     ''**Python Backend Error**: '' @ message error @
     ''\<newline>\<newline>*Check Vercel Environment Variables and Render Server logs.*''"

definition mock_text :: string where
  "mock_text = ''**[Mock Generated Content]**...''"

text \<open>The template of lines 115 to 136, in two parts: the heading with the three hints, and
  the debug section.\<close>

definition diagnostic_hints :: "string \<Rightarrow> string \<Rightarrow> string" where
  "diagnostic_hints localUrl targetModel =
     ''# Configuration Required\<newline>'' @
     ''\<newline>'' @
     ''I cannot generate real output because no AI provider is configured or reachable.\<newline>'' @
     ''\<newline>'' @
     ''**1. Local LLM (Recommended)**\<newline>'' @
     ''- Ensure your local server (e.g., Ollama) is running at `'' @ localUrl @ ''`.\<newline>'' @
     ''- Run: `ollama run '' @ targetModel @ ''`\<newline>'' @
     ''- Restart this app: `npm run dev`\<newline>'' @
     ''\<newline>'' @
     ''**2. RapidAPI**\<newline>'' @
     ''- Add `RAPIDAPI_KEY` to your `.env.local` file.\<newline>'' @
     ''\<newline>'' @
     ''**3. Python Backend (Hugging Face)**\<newline>'' @
     ''- Ensure `HF_TOKEN` and `USE_PYTHON_BACKEND=true` are in `.env.local`.\<newline>'' @
     ''- Ensure the python server is running: `python3 server.py`\<newline>'' @
     ''\<newline>''"

definition diagnostic_debug :: "string \<Rightarrow> bool \<Rightarrow> bool \<Rightarrow> bool \<Rightarrow> string" where
  "diagnostic_debug localUrl useLocal usePython keyFound =
     ''**4. Debug Info**\<newline>'' @
     ''- Local URL: '' @ localUrl @ ''\<newline>'' @
     ''- Use Local: '' @ show_bool useLocal @ ''\<newline>'' @
     ''- Use Python: '' @ show_bool usePython @ ''\<newline>'' @
     ''- Rapid Key Found: '' @ show_bool keyFound @ ''\<newline>''"

definition diagnostic :: "string \<Rightarrow> string \<Rightarrow> bool \<Rightarrow> bool \<Rightarrow> bool \<Rightarrow> string" where
  "diagnostic localUrl targetModel useLocal usePython keyFound =
     diagnostic_hints localUrl targetModel @
     diagnostic_debug localUrl useLocal usePython keyFound"

section \<open>generateContent\<close>

text \<open>The constants of lines 6 to 13.\<close>

record config =
  localUrl :: string
  useLocal :: bool
  usePython :: bool
  pythonUrl :: string
  rapidApiKey :: "string option"
  targetModel :: string

definition read_config :: "env \<Rightarrow> string \<Rightarrow> config" where
  "read_config e model =
     \<lparr>localUrl = or_default (LOCAL_LLM_URL e) ''http://localhost:11434/v1/chat/completions'',
      useLocal = (USE_LOCAL_LLM e = Some ''true''),
      usePython = (USE_PYTHON_BACKEND e = Some ''true''),
      pythonUrl = or_default (PYTHON_SERVER_URL e) ''http://localhost:5001/generate'',
      rapidApiKey = RAPIDAPI_KEY e,
      targetModel =
        (if USE_LOCAL_LLM e = Some ''true'' \<or> USE_PYTHON_BACKEND e = Some ''true''
         then fixed_model else model)\<rparr>"

text \<open>\<open>mockResponse\<close> (lines 139 to 143): it waits 1500 ms and returns the placeholder,
  whatever its argument.\<close>

definition mockResponse :: "string \<Rightarrow> event list \<Rightarrow> outcome" where
  "mockResponse model tr = (Inr (Val (JStr mock_text)), tr @ [SetTimeout 1500])"

text \<open>Lines 112 to 136: the last \<open>return\<close>.\<close>

definition final_stage :: "config \<Rightarrow> event list \<Rightarrow> outcome" where
  "final_stage c tr =
     (Inr (Val (JStr (diagnostic (localUrl c) (targetModel c) (useLocal c) (usePython c)
                        (truthy (rapidApiKey c))))), tr)"

text \<open>Lines 80 to 110.\<close>

definition rapid_stage :: "runtime \<Rightarrow> config \<Rightarrow> string \<Rightarrow> string \<Rightarrow> event list \<Rightarrow> outcome" where
  "rapid_stage rt c systemPrompt userMessage tr =
     (case rapidApiKey c of
        None \<Rightarrow> final_stage c tr
      | Some key \<Rightarrow>
          if key = [] then final_stage c tr
          else (let req = rapid_request key systemPrompt userMessage;
                    tr' = tr @ [Fetch RapidAPI req]
                in case rapid_try rt req of
                     Inr v \<Rightarrow> (Inr v, tr')
                   | Inl error \<Rightarrow> final_stage c tr'))"

text \<open>Lines 44 to 77.\<close>

definition local_stage :: "runtime \<Rightarrow> config \<Rightarrow> string \<Rightarrow> string \<Rightarrow> event list \<Rightarrow> outcome" where
  "local_stage rt c systemPrompt userMessage tr =
     (if useLocal c
      then (let req = local_request (localUrl c) (targetModel c) systemPrompt userMessage;
                tr' = tr @ [Fetch LocalLLM req]
            in case local_try rt req of
                 Inr v \<Rightarrow> (Inr v, tr')
               | Inl error \<Rightarrow>
                   if \<not> truthy (rapidApiKey c) \<and> \<not> usePython c
                   then mockResponse (targetModel c) tr'
                   else rapid_stage rt c systemPrompt userMessage tr')
      else rapid_stage rt c systemPrompt userMessage tr)"

text \<open>Lines 16 to 41.\<close>

definition python_stage :: "runtime \<Rightarrow> config \<Rightarrow> string \<Rightarrow> string \<Rightarrow> event list \<Rightarrow> outcome" where
  "python_stage rt c systemPrompt userMessage tr =
     (if usePython c
      then (let req = python_request (pythonUrl c) systemPrompt userMessage;
                tr' = tr @ [Fetch PythonBackend req]
            in case python_try rt req of
                 Inr v \<Rightarrow> (Inr v, tr')
               | Inl error \<Rightarrow>
                   if \<not> useLocal c \<and> \<not> truthy (rapidApiKey c)
                   then (Inr (Val (JStr (python_error_text error))), tr')
                   else local_stage rt c systemPrompt userMessage tr')
      else local_stage rt c systemPrompt userMessage tr)"

text \<open>
  The whole function: the value the promise settles with (\<open>Inr\<close> resolved, \<open>Inl\<close> rejected)
  and the events of the run, in order.
\<close>

definition generateContent :: "runtime \<Rightarrow> env \<Rightarrow> string \<Rightarrow> string \<Rightarrow> string \<Rightarrow> outcome" where
  "generateContent rt e model systemPrompt userMessage =
     python_stage rt (read_config e model) systemPrompt userMessage []"

section \<open>Vocabulary of the properties\<close>

text \<open>The try block behind each call site.\<close>

fun try_at :: "runtime \<Rightarrow> site \<Rightarrow> request \<Rightarrow> js_error + jsval" where
  "try_at rt PythonBackend req = python_try rt req"
| "try_at rt LocalLLM req = local_try rt req"
| "try_at rt RapidAPI req = rapid_try rt req"

text \<open>The call sites of a run's \<open>fetch\<close> calls, in order.\<close>

fun sites :: "event list \<Rightarrow> site list" where
  "sites [] = []"
| "sites (Fetch st req # es) = st # sites es"
| "sites (SetTimeout n # es) = sites es"

text \<open>The guard of each provider's block (lines 16, 44 and 80).\<close>

definition enabled :: "config \<Rightarrow> site \<Rightarrow> bool" where
  "enabled c st =
     (case st of
        PythonBackend \<Rightarrow> usePython c
      | LocalLLM \<Rightarrow> useLocal c
      | RapidAPI \<Rightarrow> truthy (rapidApiKey c))"

definition is_nonempty_string :: "jsval \<Rightarrow> bool" where
  "is_nonempty_string v = (case v of Val (JStr s) \<Rightarrow> s \<noteq> [] | _ \<Rightarrow> False)"

text \<open>
  Three predicates on runs, used in the proofs by stages: the run resolves, with a
  non-empty string or with the value of a try block it ran; every try block it ran
  threw; a try block that returned is the last event and gives the result; it called
  only providers whose guard holds.
\<close>

definition accounted :: "runtime \<Rightarrow> outcome \<Rightarrow> bool" where
  "accounted rt out =
     (\<exists>v. fst out = Inr v \<and>
        (is_nonempty_string v \<or>
         (\<exists>st req. Fetch st req \<in> set (snd out) \<and> try_at rt st req = Inr v)))"

definition all_failed :: "runtime \<Rightarrow> event list \<Rightarrow> bool" where
  "all_failed rt tr =
     (\<forall>st req. Fetch st req \<in> set tr \<longrightarrow> (\<exists>err. try_at rt st req = Inl err))"

definition stops_at_success :: "runtime \<Rightarrow> outcome \<Rightarrow> bool" where
  "stops_at_success rt out =
     (\<forall>pre st req post v.
        snd out = pre @ Fetch st req # post \<and> try_at rt st req = Inr v \<longrightarrow>
        post = [] \<and> fst out = Inr v)"

definition only_enabled :: "config \<Rightarrow> event list \<Rightarrow> bool" where
  "only_enabled c tr = (\<forall>st req. Fetch st req \<in> set tr \<longrightarrow> enabled c st)"

section \<open>Concrete runs\<close>

text \<open>
  Environments with no URL override, runtimes that answer every request alike or by URL,
  and a few replies. The TypeError text is one engine's wording.
\<close>

definition env_flags :: "bool \<Rightarrow> bool \<Rightarrow> string option \<Rightarrow> env" where
  "env_flags py loc key =
     \<lparr>LOCAL_LLM_URL = None,
      USE_LOCAL_LLM = (if loc then Some ''true'' else None),
      USE_PYTHON_BACKEND = (if py then Some ''true'' else None),
      PYTHON_SERVER_URL = None,
      RAPIDAPI_KEY = key\<rparr>"

definition engine_message :: "jsval \<Rightarrow> pkey \<Rightarrow> string" where
  "engine_message v k =
     ''Cannot read properties of '' @ (case v of Undefined \<Rightarrow> ''undefined'' | Val _ \<Rightarrow> ''null'') @
     '' (reading '' @ key_name k @ '')''"

definition rt_always :: "fetch_outcome \<Rightarrow> runtime" where
  "rt_always out = \<lparr>fetch = (\<lambda>req. out), type_error_message = engine_message\<rparr>"

definition rt_by_url :: "(string \<times> fetch_outcome) list \<Rightarrow> fetch_outcome \<Rightarrow> runtime" where
  "rt_by_url tab other =
     \<lparr>fetch = (\<lambda>req. case map_of tab (url req) of Some out \<Rightarrow> out | None \<Rightarrow> other),
      type_error_message = engine_message\<rparr>"

definition ok_response :: "json \<Rightarrow> string \<Rightarrow> response" where
  "ok_response data raw =
     \<lparr>ok = True, statusText = ''OK'', resp_json = Inr data, resp_text = Inr raw\<rparr>"

definition unavailable :: response where
  "unavailable =
     \<lparr>ok = False, statusText = ''Service Unavailable'',
      resp_json = Inl (JsError ''Unexpected token u in JSON at position 0''),
      resp_text = Inr ''upstream down''\<rparr>"

definition chat_reply :: json where
  "chat_reply =
     JObj [(''choices'',
            JArr [JObj [(''message'',
                         JObj [(''role'', JStr ''assistant''), (''content'', JStr ''Hello'')])]])]"

definition chat_reply_raw :: string where
  \<open>chat_reply_raw = ''{"choices":[{"message":{"role":"assistant","content":"Hello"}}]}''\<close>

definition text_reply :: "string \<Rightarrow> json" where
  "text_reply t = JObj [(''text'', JStr t)]"

definition hello_text_raw :: string where
  \<open>hello_text_raw = ''{"text":"Hello"}''\<close>

definition empty_text_raw :: string where
  \<open>empty_text_raw = ''{"text":""}''\<close>

definition python_default_url :: string where
  "python_default_url = ''http://localhost:5001/generate''"

definition local_default_url :: string where
  "local_default_url = ''http://localhost:11434/v1/chat/completions''"

section \<open>Properties of the stages\<close>

lemma diagnostic_nonempty: "diagnostic l tm a b k \<noteq> []"
  by (simp add: diagnostic_def diagnostic_hints_def)

lemma python_error_text_nonempty: "python_error_text err \<noteq> []"
  by (simp add: python_error_text_def)

lemma is_nonempty_string_JStr [simp]: "is_nonempty_string (Val (JStr s)) = (s \<noteq> [])"
  by (simp add: is_nonempty_string_def)

lemma final_stage_snd [simp]: "snd (final_stage c tr) = tr"
  by (simp add: final_stage_def)

subsection \<open>Every run resolves\<close>

lemma accounted_string: "s \<noteq> [] \<Longrightarrow> accounted rt (Inr (Val (JStr s)), tr)"
  by (simp add: accounted_def)

lemma accounted_success:
  "try_at rt st req = Inr v \<Longrightarrow> accounted rt (Inr v, tr @ [Fetch st req])"
  unfolding accounted_def by auto

lemma final_stage_accounted: "accounted rt (final_stage c tr)"
  by (simp add: final_stage_def accounted_string diagnostic_nonempty)

lemma rapid_stage_accounted: "accounted rt (rapid_stage rt c s u tr)"
  by (simp add: rapid_stage_def Let_def final_stage_accounted
      accounted_success [where st = RapidAPI, simplified] split: option.split sum.split)

lemma local_stage_accounted: "accounted rt (local_stage rt c s u tr)"
  by (simp add: local_stage_def Let_def rapid_stage_accounted mockResponse_def mock_text_def
      accounted_string accounted_success [where st = LocalLLM, simplified] split: sum.split)

lemma python_stage_accounted: "accounted rt (python_stage rt c s u tr)"
  by (simp add: python_stage_def Let_def local_stage_accounted python_error_text_nonempty
      accounted_string accounted_success [where st = PythonBackend, simplified]
      split: sum.split)

subsection \<open>The order of the calls\<close>

lemma sites_append: "sites (xs @ ys) = sites xs @ sites ys"
  by (induction xs rule: sites.induct) simp_all

lemma rapid_stage_sites:
  "sites (snd (rapid_stage rt c s u tr)) \<in> {sites tr, sites tr @ [RapidAPI]}"
  by (simp add: rapid_stage_def Let_def sites_append split: option.split sum.split)

lemma local_stage_sites:
  "sites (snd (local_stage rt c s u tr)) \<in>
     {sites tr, sites tr @ [RapidAPI], sites tr @ [LocalLLM], sites tr @ [LocalLLM, RapidAPI]}"
  using rapid_stage_sites [where tr = tr and rt = rt and c = c and s = s and u = u]
    rapid_stage_sites
      [where tr = "tr @ [Fetch LocalLLM (local_request (localUrl c) (targetModel c) s u)]"
        and rt = rt and c = c and s = s and u = u]
  by (auto simp: local_stage_def Let_def sites_append mockResponse_def split: sum.split)

lemma python_stage_sites:
  "sites (snd (python_stage rt c s u [])) \<in>
     {[], [RapidAPI], [LocalLLM], [LocalLLM, RapidAPI], [PythonBackend],
      [PythonBackend, RapidAPI], [PythonBackend, LocalLLM],
      [PythonBackend, LocalLLM, RapidAPI]}"
  using local_stage_sites [where tr = "[]" and rt = rt and c = c and s = s and u = u]
    local_stage_sites
      [where tr = "[Fetch PythonBackend (python_request (pythonUrl c) s u)]"
        and rt = rt and c = c and s = s and u = u]
  by (auto simp: python_stage_def Let_def split: sum.split)

subsection \<open>A try block that returns ends the run\<close>

lemma snoc_eq_split: "tr @ [x] = pre @ y # post \<Longrightarrow> (post = [] \<and> y = x) \<or> y \<in> set tr"
  by (cases post rule: rev_cases) auto

lemma all_failed_Nil [simp]: "all_failed rt []"
  by (simp add: all_failed_def)

lemma all_failed_Fetch [simp]:
  "all_failed rt (Fetch st req # es) =
     ((\<exists>err. try_at rt st req = Inl err) \<and> all_failed rt es)"
  by (auto simp: all_failed_def)

lemma all_failed_SetTimeout [simp]: "all_failed rt (SetTimeout n # es) = all_failed rt es"
  by (auto simp: all_failed_def)

lemma all_failed_append [simp]:
  "all_failed rt (xs @ ys) = (all_failed rt xs \<and> all_failed rt ys)"
  by (auto simp: all_failed_def)

lemma stops_all_failed: "all_failed rt tr \<Longrightarrow> stops_at_success rt (res, tr)"
  unfolding all_failed_def stops_at_success_def by fastforce

lemma stops_success:
  assumes "all_failed rt tr" "try_at rt st req = Inr v"
  shows "stops_at_success rt (Inr v, tr @ [Fetch st req])"
  unfolding stops_at_success_def
proof (intro allI impI, elim conjE)
  fix pre st' req' post v'
  assume eq: "snd (Inr v, tr @ [Fetch st req]) = pre @ Fetch st' req' # post"
    and returned: "try_at rt st' req' = Inr v'"
  from eq have "tr @ [Fetch st req] = pre @ Fetch st' req' # post" by simp
  from snoc_eq_split [OF this]
  show "post = [] \<and> fst (Inr v, tr @ [Fetch st req]) = Inr v'"
  proof
    assume "post = [] \<and> Fetch st' req' = Fetch st req"
    with returned assms(2) show ?thesis by simp
  next
    assume "Fetch st' req' \<in> set tr"
    with assms(1) returned show ?thesis by (fastforce simp: all_failed_def)
  qed
qed

lemma final_stage_stops: "all_failed rt tr \<Longrightarrow> stops_at_success rt (final_stage c tr)"
  by (simp add: final_stage_def stops_all_failed)

lemma rapid_stage_stops: "all_failed rt tr \<Longrightarrow> stops_at_success rt (rapid_stage rt c s u tr)"
  by (simp add: rapid_stage_def Let_def final_stage_stops
      stops_success [where st = RapidAPI, simplified] split: option.split sum.split)

lemma local_stage_stops: "all_failed rt tr \<Longrightarrow> stops_at_success rt (local_stage rt c s u tr)"
  by (simp add: local_stage_def Let_def rapid_stage_stops mockResponse_def stops_all_failed
      stops_success [where st = LocalLLM, simplified] split: sum.split)

lemma python_stage_stops:
  "all_failed rt tr \<Longrightarrow> stops_at_success rt (python_stage rt c s u tr)"
  by (simp add: python_stage_def Let_def local_stage_stops stops_all_failed
      stops_success [where st = PythonBackend, simplified] split: sum.split)

subsection \<open>Only enabled providers are called, and all of them while none has returned\<close>

lemma only_enabled_Nil [simp]: "only_enabled c []"
  by (simp add: only_enabled_def)

lemma only_enabled_Fetch [simp]:
  "only_enabled c (Fetch st req # es) = (enabled c st \<and> only_enabled c es)"
  by (auto simp: only_enabled_def)

lemma only_enabled_SetTimeout [simp]: "only_enabled c (SetTimeout n # es) = only_enabled c es"
  by (auto simp: only_enabled_def)

lemma only_enabled_append [simp]:
  "only_enabled c (xs @ ys) = (only_enabled c xs \<and> only_enabled c ys)"
  by (auto simp: only_enabled_def)

lemma rapid_stage_enabled:
  "only_enabled c tr \<Longrightarrow> only_enabled c (snd (rapid_stage rt c s u tr))"
  by (simp add: rapid_stage_def Let_def enabled_def truthy_def split: option.split sum.split)

lemma local_stage_enabled:
  "only_enabled c tr \<Longrightarrow> only_enabled c (snd (local_stage rt c s u tr))"
  by (simp add: local_stage_def Let_def rapid_stage_enabled mockResponse_def enabled_def
      split: sum.split)

lemma python_stage_enabled:
  "only_enabled c tr \<Longrightarrow> only_enabled c (snd (python_stage rt c s u tr))"
  by (simp add: python_stage_def Let_def local_stage_enabled enabled_def split: sum.split)

lemma rapid_stage_all_failed:
  "all_failed rt (snd (rapid_stage rt c s u tr)) \<Longrightarrow>
   sites (snd (rapid_stage rt c s u tr)) = sites tr @ filter (enabled c) [RapidAPI]"
  by (simp add: rapid_stage_def Let_def enabled_def truthy_def sites_append
      split: option.splits sum.splits if_splits)

lemma local_stage_all_failed:
  "all_failed rt (snd (local_stage rt c s u tr)) \<Longrightarrow>
   sites (snd (local_stage rt c s u tr)) = sites tr @ filter (enabled c) [LocalLLM, RapidAPI]"
  using rapid_stage_all_failed [where tr = tr and rt = rt and c = c and s = s and u = u]
    rapid_stage_all_failed
      [where tr = "tr @ [Fetch LocalLLM (local_request (localUrl c) (targetModel c) s u)]"
        and rt = rt and c = c and s = s and u = u]
  by (simp add: local_stage_def Let_def enabled_def sites_append mockResponse_def
      split: sum.splits if_splits)

lemma python_stage_all_failed:
  "all_failed rt (snd (python_stage rt c s u [])) \<Longrightarrow>
   sites (snd (python_stage rt c s u [])) =
     filter (enabled c) [PythonBackend, LocalLLM, RapidAPI]"
  using local_stage_all_failed [where tr = "[]" and rt = rt and c = c and s = s and u = u]
    local_stage_all_failed
      [where tr = "[Fetch PythonBackend (python_request (pythonUrl c) s u)]"
        and rt = rt and c = c and s = s and u = u]
  by (simp add: python_stage_def Let_def enabled_def split: sum.splits if_splits)

subsection \<open>Where the local call and the timer can come from\<close>

lemma rapid_stage_events:
  "ev \<in> set (snd (rapid_stage rt c s u tr)) \<Longrightarrow>
   ev \<in> set tr \<or> (\<exists>key. ev = Fetch RapidAPI (rapid_request key s u))"
  by (auto simp: rapid_stage_def Let_def final_stage_def split: option.splits sum.splits if_splits)

lemma local_stage_timer:
  "SetTimeout n \<in> set (snd (local_stage rt c s u tr)) \<Longrightarrow>
   SetTimeout n \<in> set tr \<or> (\<not> usePython c \<and> \<not> truthy (rapidApiKey c))"
  by (auto simp: local_stage_def Let_def mockResponse_def
      dest!: rapid_stage_events split: sum.splits if_splits)

lemma python_stage_timer:
  "SetTimeout n \<in> set (snd (python_stage rt c s u [])) \<Longrightarrow>
   \<not> usePython c \<and> \<not> truthy (rapidApiKey c)"
  by (auto simp: python_stage_def Let_def dest!: local_stage_timer split: sum.splits if_splits)



lemma diagnostic_inject:
  "diagnostic l tm a b k = diagnostic l tm' a b k \<Longrightarrow> tm = tm'"
  by (simp add: diagnostic_def diagnostic_hints_def)

section \<open>The claims\<close>

text \<open>
  C1, as stated, fails: with only the Python backend enabled and a 2xx reply whose JSON
  body is the empty object, \<open>data.text\<close> is \<open>undefined\<close>, and that is what the promise
  resolves with; no string at all.
\<close>

theorem generateContent_undefined_counterexample:
  "fst (generateContent (rt_always (Resolved (ok_response (JObj []) ''{}'')))
          (env_flags True False None) ''gpt-4o'' ''sys'' ''hi'') = Inr Undefined"
  by (simp add: generateContent_def python_stage_def read_config_def env_flags_def Let_def
      python_try_def rt_always_def ok_response_def)

text \<open>
  C1, amended: for every environment, every behaviour of the network and all arguments,
  generateContent resolves and never rejects; the value is a non-empty string, or else
  it is the value that the try block of a provider called in this run returned (the field
  of the reply, which is not checked).
\<close>

theorem generateContent_resolves:
  "\<exists>v. fst (generateContent rt e m s u) = Inr v \<and>
     (is_nonempty_string v \<or>
      (\<exists>st req. Fetch st req \<in> set (snd (generateContent rt e m s u)) \<and>
                try_at rt st req = Inr v))"
  using python_stage_accounted
    [where rt = rt and c = "read_config e m" and s = s and u = u and tr = "[]"]
  unfolding accounted_def generateContent_def .

text \<open>
  C2, as stated, fails: with the Python backend and the local LLM both enabled, a 2xx
  Python reply whose body is the JSON text \<open>null\<close> parses, but \<open>data.text\<close> throws, the
  catch block swallows it, and the local LLM is called and answers.
\<close>

theorem python_null_body_counterexample:
  "fetch (rt_by_url [(python_default_url, Resolved (ok_response JNull ''null''))]
            (Resolved (ok_response chat_reply chat_reply_raw)))
     (python_request python_default_url ''sys'' ''hi'') =
     Resolved (ok_response JNull ''null'') \<and>
   generateContent
     (rt_by_url [(python_default_url, Resolved (ok_response JNull ''null''))]
        (Resolved (ok_response chat_reply chat_reply_raw)))
     (env_flags True True None) ''gpt-4o'' ''sys'' ''hi'' =
     (Inr (Val (JStr ''Hello'')),
      [Fetch PythonBackend (python_request python_default_url ''sys'' ''hi''),
       Fetch LocalLLM (local_request local_default_url fixed_model ''sys'' ''hi'')])"
  by (simp add: generateContent_def python_stage_def local_stage_def read_config_def
      env_flags_def Let_def python_try_def local_try_def rt_by_url_def ok_response_def
      python_request_def local_request_def python_default_url_def local_default_url_def
      or_default_def truthy_def choices_content_def then_get_def chat_reply_def)

text \<open>
  C2, amended: if USE_PYTHON_BACKEND is 'true' and the POST to the python URL gets a 2xx
  reply whose body parses to a JSON value other than \<open>null\<close>, generateContent returns
  exactly \<open>data.text\<close> (\<open>undefined\<close> when there is no such field), and the only call of
  the run is that POST: neither the local LLM nor RapidAPI is contacted.
\<close>

theorem python_success_returns_text:
  assumes "USE_PYTHON_BACKEND e = Some ''true''"
    and "fetch rt (python_request (pythonUrl (read_config e m)) s u) = Resolved r"
    and "ok r"
    and "resp_json r = Inr data"
    and "data \<noteq> JNull"
  shows "\<exists>v. get_prop (type_error_message rt) (Val data) Text = Inr v \<and>
           generateContent rt e m s u =
             (Inr v, [Fetch PythonBackend (python_request (pythonUrl (read_config e m)) s u)])"
proof -
  from assms(5) obtain v where v: "get_prop (type_error_message rt) (Val data) Text = Inr v"
    by (cases data) simp_all
  with assms(2-4)
  have "python_try rt (python_request (pythonUrl (read_config e m)) s u) = Inr v"
    by (simp add: python_try_def)
  with assms(1) v show ?thesis
    by (simp add: generateContent_def python_stage_def Let_def read_config_def)
qed

theorem python_success_returns_text_witness:
  "USE_PYTHON_BACKEND (env_flags True True (Some ''k'')) = Some ''true'' \<and>
   fetch (rt_always (Resolved (ok_response (text_reply ''Hello'') hello_text_raw)))
     (python_request python_default_url ''sys'' ''hi'') =
     Resolved (ok_response (text_reply ''Hello'') hello_text_raw) \<and>
   generateContent
     (rt_always (Resolved (ok_response (text_reply ''Hello'') hello_text_raw)))
     (env_flags True True (Some ''k'')) ''gpt-4o'' ''sys'' ''hi'' =
     (Inr (Val (JStr ''Hello'')),
      [Fetch PythonBackend (python_request python_default_url ''sys'' ''hi'')])"
proof -
  let ?r = "ok_response (text_reply ''Hello'') hello_text_raw"
  let ?rt = "rt_always (Resolved ?r)"
  let ?e = "env_flags True True (Some ''k'')"
  have url: "pythonUrl (read_config ?e ''gpt-4o'') = python_default_url"
    by (simp add: read_config_def env_flags_def or_default_def python_default_url_def)
  have h1: "USE_PYTHON_BACKEND ?e = Some ''true''"
    by (simp add: env_flags_def)
  have h2: "fetch ?rt (python_request (pythonUrl (read_config ?e ''gpt-4o'')) ''sys'' ''hi'') =
      Resolved ?r"
    by (simp add: rt_always_def)
  have h3: "ok ?r" and h4: "resp_json ?r = Inr (text_reply ''Hello'')"
    by (simp_all add: ok_response_def)
  have h5: "text_reply ''Hello'' \<noteq> JNull"
    by (simp add: text_reply_def)
  from python_success_returns_text [OF h1 h2 h3 h4 h5] h1 h2 url
  show ?thesis by (auto simp: text_reply_def)
qed



text \<open>
  C4: if USE_PYTHON_BACKEND is 'true', the python try block throws (the fetch rejects, the
  status is not 2xx, the body does not parse, or the body is \<open>null\<close>), USE_LOCAL_LLM is
  not 'true' and RAPIDAPI_KEY is absent or empty, generateContent returns a string that
  starts with "**Python Backend Error**", and the python POST is the only call of the run.
\<close>

theorem python_failure_terminal:
  assumes "USE_PYTHON_BACKEND e = Some ''true''"
    and "python_try rt (python_request (pythonUrl (read_config e m)) s u) = Inl err"
    and "USE_LOCAL_LLM e \<noteq> Some ''true''"
    and "\<not> truthy (RAPIDAPI_KEY e)"
  shows "generateContent rt e m s u =
           (Inr (Val (JStr (python_error_text err))),
            [Fetch PythonBackend (python_request (pythonUrl (read_config e m)) s u)]) \<and>
         prefix ''**Python Backend Error**'' (python_error_text err)"
  using assms
  by (simp add: generateContent_def python_stage_def Let_def read_config_def
      python_error_text_def)

theorem python_failure_terminal_witness:
  "USE_PYTHON_BACKEND (env_flags True False None) = Some ''true'' \<and>
   python_try (rt_always (Resolved unavailable))
     (python_request python_default_url ''sys'' ''hi'') =
     Inl (JsError ''Python Server Error: Service Unavailable'') \<and>
   USE_LOCAL_LLM (env_flags True False None) \<noteq> Some ''true'' \<and>
   \<not> truthy (RAPIDAPI_KEY (env_flags True False None)) \<and>
   generateContent (rt_always (Resolved unavailable)) (env_flags True False None)
     ''gpt-4o'' ''sys'' ''hi'' =
     (Inr (Val (JStr (python_error_text (JsError ''Python Server Error: Service Unavailable'')))),
      [Fetch PythonBackend (python_request python_default_url ''sys'' ''hi'')]) \<and>
   prefix ''**Python Backend Error**''
     (python_error_text (JsError ''Python Server Error: Service Unavailable''))"
proof -
  let ?rt = "rt_always (Resolved unavailable)"
  let ?e = "env_flags True False None"
  have url: "pythonUrl (read_config ?e ''gpt-4o'') = python_default_url"
    by (simp add: read_config_def env_flags_def or_default_def python_default_url_def)
  have h1: "USE_PYTHON_BACKEND ?e = Some ''true''"
    and h3: "USE_LOCAL_LLM ?e \<noteq> Some ''true''"
    and h4: "\<not> truthy (RAPIDAPI_KEY ?e)"
    by (simp_all add: env_flags_def truthy_def)
  have h2: "python_try ?rt (python_request (pythonUrl (read_config ?e ''gpt-4o'')) ''sys'' ''hi'') =
      Inl (JsError ''Python Server Error: Service Unavailable'')"
    by (simp add: python_try_def rt_always_def unavailable_def)
  from python_failure_terminal [OF h1 h2 h3 h4] h1 h2 h3 h4 url
  show ?thesis by simp
qed

text \<open>
  C5: if USE_LOCAL_LLM is 'true', the local try block throws, RAPIDAPI_KEY is absent or
  empty and USE_PYTHON_BACKEND is not 'true', generateContent returns the placeholder of
  \<open>mockResponse\<close>; the run is the local POST followed by the 1500 ms timer, and nothing
  else.
\<close>

theorem local_failure_mock:
  assumes "USE_LOCAL_LLM e = Some ''true''"
    and "local_try rt (local_request (localUrl (read_config e m)) fixed_model s u) = Inl err"
    and "\<not> truthy (RAPIDAPI_KEY e)"
    and "USE_PYTHON_BACKEND e \<noteq> Some ''true''"
  shows "generateContent rt e m s u =
           (Inr (Val (JStr ''**[Mock Generated Content]**...'')),
            [Fetch LocalLLM (local_request (localUrl (read_config e m)) fixed_model s u),
             SetTimeout 1500])"
  using assms
  by (simp add: generateContent_def python_stage_def local_stage_def Let_def read_config_def
      mockResponse_def mock_text_def)

theorem local_failure_mock_witness:
  "USE_LOCAL_LLM (env_flags False True None) = Some ''true'' \<and>
   local_try (rt_always (Rejected (JsError ''fetch failed'')))
     (local_request local_default_url fixed_model ''sys'' ''hi'') =
     Inl (JsError ''fetch failed'') \<and>
   \<not> truthy (RAPIDAPI_KEY (env_flags False True None)) \<and>
   USE_PYTHON_BACKEND (env_flags False True None) \<noteq> Some ''true'' \<and>
   generateContent (rt_always (Rejected (JsError ''fetch failed''))) (env_flags False True None)
     ''gpt-4o'' ''sys'' ''hi'' =
     (Inr (Val (JStr ''**[Mock Generated Content]**...'')),
      [Fetch LocalLLM (local_request local_default_url fixed_model ''sys'' ''hi''),
       SetTimeout 1500])"
proof -
  let ?rt = "rt_always (Rejected (JsError ''fetch failed''))"
  let ?e = "env_flags False True None"
  have url: "localUrl (read_config ?e ''gpt-4o'') = local_default_url"
    by (simp add: read_config_def env_flags_def or_default_def local_default_url_def)
  have h1: "USE_LOCAL_LLM ?e = Some ''true''"
    and h3: "\<not> truthy (RAPIDAPI_KEY ?e)"
    and h4: "USE_PYTHON_BACKEND ?e \<noteq> Some ''true''"
    by (simp_all add: env_flags_def truthy_def)
  have h2: "local_try ?rt (local_request (localUrl (read_config ?e ''gpt-4o'')) fixed_model
      ''sys'' ''hi'') = Inl (JsError ''fetch failed'')"
    by (simp add: local_try_def rt_always_def)
  from local_failure_mock [OF h1 h2 h3 h4] h1 h2 h3 h4 url
  show ?thesis by simp
qed

text \<open>
  C6: if USE_PYTHON_BACKEND is not 'true', USE_LOCAL_LLM is not 'true' and RAPIDAPI_KEY is
  absent or empty, generateContent makes no call and returns the diagnostic template of
  lines 115 to 136, written out here in full: the local URL (LOCAL_LLM_URL, or the default
  when that is absent or empty) stands in the first hint and in the debug section, the
  \<open>model\<close> argument in the "ollama run" line, and the three flags read \<open>false\<close>.
\<close>

theorem no_provider_diagnostic:
  assumes "USE_PYTHON_BACKEND e \<noteq> Some ''true''"
    and "USE_LOCAL_LLM e \<noteq> Some ''true''"
    and "\<not> truthy (RAPIDAPI_KEY e)"
  shows "let l = (case LOCAL_LLM_URL e of
              None \<Rightarrow> ''http://localhost:11434/v1/chat/completions''
            | Some x \<Rightarrow> if x = [] then ''http://localhost:11434/v1/chat/completions'' else x)
         in generateContent rt e m s u =
            (Inr (Val (JStr (
               ''# Configuration Required\<newline>'' @
               ''\<newline>'' @
               ''I cannot generate real output because no AI provider is configured or reachable.\<newline>'' @
               ''\<newline>'' @
               ''**1. Local LLM (Recommended)**\<newline>'' @
               ''- Ensure your local server (e.g., Ollama) is running at `'' @ l @ ''`.\<newline>'' @
               ''- Run: `ollama run '' @ m @ ''`\<newline>'' @
               ''- Restart this app: `npm run dev`\<newline>'' @
               ''\<newline>'' @
               ''**2. RapidAPI**\<newline>'' @
               ''- Add `RAPIDAPI_KEY` to your `.env.local` file.\<newline>'' @
               ''\<newline>'' @
               ''**3. Python Backend (Hugging Face)**\<newline>'' @
               ''- Ensure `HF_TOKEN` and `USE_PYTHON_BACKEND=true` are in `.env.local`.\<newline>'' @
               ''- Ensure the python server is running: `python3 server.py`\<newline>'' @
               ''\<newline>'' @
               ''**4. Debug Info**\<newline>'' @
               ''- Local URL: '' @ l @ ''\<newline>'' @
               ''- Use Local: false\<newline>'' @
               ''- Use Python: false\<newline>'' @
               ''- Rapid Key Found: false\<newline>''))), [])"
proof -
  from assms have "generateContent rt e m s u =
      (Inr (Val (JStr (diagnostic (localUrl (read_config e m)) m False False False))), [])"
    by (auto simp: generateContent_def python_stage_def local_stage_def rapid_stage_def
        final_stage_def Let_def read_config_def truthy_def split: option.splits)
  then show ?thesis
    by (simp add: Let_def diagnostic_def diagnostic_hints_def diagnostic_debug_def
        show_bool_def read_config_def or_default_def split: option.split)
qed

theorem no_provider_diagnostic_witness:
  "USE_PYTHON_BACKEND (env_flags False False None) \<noteq> Some ''true'' \<and>
   USE_LOCAL_LLM (env_flags False False None) \<noteq> Some ''true'' \<and>
   \<not> truthy (RAPIDAPI_KEY (env_flags False False None)) \<and>
   generateContent (rt_always (Rejected (JsError ''fetch failed''))) (env_flags False False None)
     ''gpt-4o'' ''sys'' ''hi'' =
     (Inr (Val (JStr (
          ''# Configuration Required\<newline>'' @
          ''\<newline>'' @
          ''I cannot generate real output because no AI provider is configured or reachable.\<newline>'' @
          ''\<newline>'' @
          ''**1. Local LLM (Recommended)**\<newline>'' @
          ''- Ensure your local server (e.g., Ollama) is running at `http://localhost:11434/v1/chat/completions`.\<newline>'' @
          ''- Run: `ollama run gpt-4o`\<newline>'' @
          ''- Restart this app: `npm run dev`\<newline>'' @
          ''\<newline>'' @
          ''**2. RapidAPI**\<newline>'' @
          ''- Add `RAPIDAPI_KEY` to your `.env.local` file.\<newline>'' @
          ''\<newline>'' @
          ''**3. Python Backend (Hugging Face)**\<newline>'' @
          ''- Ensure `HF_TOKEN` and `USE_PYTHON_BACKEND=true` are in `.env.local`.\<newline>'' @
          ''- Ensure the python server is running: `python3 server.py`\<newline>'' @
          ''\<newline>'' @
          ''**4. Debug Info**\<newline>'' @
          ''- Local URL: http://localhost:11434/v1/chat/completions\<newline>'' @
          ''- Use Local: false\<newline>'' @
          ''- Use Python: false\<newline>'' @
          ''- Rapid Key Found: false\<newline>''))), []) \<and>
   generateContent (rt_always (Rejected (JsError ''fetch failed'')))
     ((env_flags False False None)\<lparr>LOCAL_LLM_URL := Some ''http://gpu:8000/v1/chat/completions''\<rparr>)
     ''gpt-4o'' ''sys'' ''hi'' =
     (Inr (Val (JStr (
          ''# Configuration Required\<newline>'' @
          ''\<newline>'' @
          ''I cannot generate real output because no AI provider is configured or reachable.\<newline>'' @
          ''\<newline>'' @
          ''**1. Local LLM (Recommended)**\<newline>'' @
          ''- Ensure your local server (e.g., Ollama) is running at `http://gpu:8000/v1/chat/completions`.\<newline>'' @
          ''- Run: `ollama run gpt-4o`\<newline>'' @
          ''- Restart this app: `npm run dev`\<newline>'' @
          ''\<newline>'' @
          ''**2. RapidAPI**\<newline>'' @
          ''- Add `RAPIDAPI_KEY` to your `.env.local` file.\<newline>'' @
          ''\<newline>'' @
          ''**3. Python Backend (Hugging Face)**\<newline>'' @
          ''- Ensure `HF_TOKEN` and `USE_PYTHON_BACKEND=true` are in `.env.local`.\<newline>'' @
          ''- Ensure the python server is running: `python3 server.py`\<newline>'' @
          ''\<newline>'' @
          ''**4. Debug Info**\<newline>'' @
          ''- Local URL: http://gpu:8000/v1/chat/completions\<newline>'' @
          ''- Use Local: false\<newline>'' @
          ''- Use Python: false\<newline>'' @
          ''- Rapid Key Found: false\<newline>''))), [])"
proof -
  let ?rt = "rt_always (Rejected (JsError ''fetch failed''))"
  let ?e = "env_flags False False None"
  let ?e' = "?e\<lparr>LOCAL_LLM_URL := Some ''http://gpu:8000/v1/chat/completions''\<rparr>"
  have h1: "USE_PYTHON_BACKEND ?e \<noteq> Some ''true''"
    and h2: "USE_LOCAL_LLM ?e \<noteq> Some ''true''"
    and h3: "\<not> truthy (RAPIDAPI_KEY ?e)"
    and h1': "USE_PYTHON_BACKEND ?e' \<noteq> Some ''true''"
    and h2': "USE_LOCAL_LLM ?e' \<noteq> Some ''true''"
    and h3': "\<not> truthy (RAPIDAPI_KEY ?e')"
    by (simp_all add: env_flags_def truthy_def)
  have u: "LOCAL_LLM_URL ?e = None"
    and u': "LOCAL_LLM_URL ?e' = Some ''http://gpu:8000/v1/chat/completions''"
    by (simp_all add: env_flags_def)
  from no_provider_diagnostic [OF h1 h2 h3, of ?rt "''gpt-4o''" "''sys''" "''hi''"]
  have r: "generateContent ?rt ?e ''gpt-4o'' ''sys'' ''hi'' =
     (Inr (Val (JStr (
          ''# Configuration Required\<newline>'' @
          ''\<newline>'' @
          ''I cannot generate real output because no AI provider is configured or reachable.\<newline>'' @
          ''\<newline>'' @
          ''**1. Local LLM (Recommended)**\<newline>'' @
          ''- Ensure your local server (e.g., Ollama) is running at `http://localhost:11434/v1/chat/completions`.\<newline>'' @
          ''- Run: `ollama run gpt-4o`\<newline>'' @
          ''- Restart this app: `npm run dev`\<newline>'' @
          ''\<newline>'' @
          ''**2. RapidAPI**\<newline>'' @
          ''- Add `RAPIDAPI_KEY` to your `.env.local` file.\<newline>'' @
          ''\<newline>'' @
          ''**3. Python Backend (Hugging Face)**\<newline>'' @
          ''- Ensure `HF_TOKEN` and `USE_PYTHON_BACKEND=true` are in `.env.local`.\<newline>'' @
          ''- Ensure the python server is running: `python3 server.py`\<newline>'' @
          ''\<newline>'' @
          ''**4. Debug Info**\<newline>'' @
          ''- Local URL: http://localhost:11434/v1/chat/completions\<newline>'' @
          ''- Use Local: false\<newline>'' @
          ''- Use Python: false\<newline>'' @
          ''- Rapid Key Found: false\<newline>''))), [])"
    by (simp add: Let_def u)
  from no_provider_diagnostic [OF h1' h2' h3', of ?rt "''gpt-4o''" "''sys''" "''hi''"]
  have r': "generateContent ?rt ?e' ''gpt-4o'' ''sys'' ''hi'' =
     (Inr (Val (JStr (
          ''# Configuration Required\<newline>'' @
          ''\<newline>'' @
          ''I cannot generate real output because no AI provider is configured or reachable.\<newline>'' @
          ''\<newline>'' @
          ''**1. Local LLM (Recommended)**\<newline>'' @
          ''- Ensure your local server (e.g., Ollama) is running at `http://gpu:8000/v1/chat/completions`.\<newline>'' @
          ''- Run: `ollama run gpt-4o`\<newline>'' @
          ''- Restart this app: `npm run dev`\<newline>'' @
          ''\<newline>'' @
          ''**2. RapidAPI**\<newline>'' @
          ''- Add `RAPIDAPI_KEY` to your `.env.local` file.\<newline>'' @
          ''\<newline>'' @
          ''**3. Python Backend (Hugging Face)**\<newline>'' @
          ''- Ensure `HF_TOKEN` and `USE_PYTHON_BACKEND=true` are in `.env.local`.\<newline>'' @
          ''- Ensure the python server is running: `python3 server.py`\<newline>'' @
          ''\<newline>'' @
          ''**4. Debug Info**\<newline>'' @
          ''- Local URL: http://gpu:8000/v1/chat/completions\<newline>'' @
          ''- Use Local: false\<newline>'' @
          ''- Use Python: false\<newline>'' @
          ''- Rapid Key Found: false\<newline>''))), [])"
    by (simp add: Let_def u')
  from h1 h2 h3 r r' show ?thesis by (intro conjI)
qed

text \<open>
  C7: in every run the calls are a subsequence of Python backend, local LLM, RapidAPI (so
  they come in that order and each at most once); only providers whose flag or key enables
  them are called; a call whose try block returns is the last event of the run and its
  value is the result; and while no try block has returned, every enabled provider is
  called.
\<close>

theorem providers_in_order_once:
  "subseq (sites (snd (generateContent rt e m s u))) [PythonBackend, LocalLLM, RapidAPI] \<and>
   (\<forall>st req. Fetch st req \<in> set (snd (generateContent rt e m s u)) \<longrightarrow>
      enabled (read_config e m) st) \<and>
   (\<forall>pre st req post v.
      snd (generateContent rt e m s u) = pre @ Fetch st req # post \<and>
      try_at rt st req = Inr v \<longrightarrow>
      post = [] \<and> fst (generateContent rt e m s u) = Inr v) \<and>
   ((\<forall>st req. Fetch st req \<in> set (snd (generateContent rt e m s u)) \<longrightarrow>
       (\<exists>err. try_at rt st req = Inl err)) \<longrightarrow>
    sites (snd (generateContent rt e m s u)) =
      filter (enabled (read_config e m)) [PythonBackend, LocalLLM, RapidAPI])"
proof -
  let ?c = "read_config e m"
  let ?out = "python_stage rt ?c s u []"
  have gen: "generateContent rt e m s u = ?out"
    by (simp add: generateContent_def)
  have "sites (snd ?out) \<in>
     {[], [RapidAPI], [LocalLLM], [LocalLLM, RapidAPI], [PythonBackend],
      [PythonBackend, RapidAPI], [PythonBackend, LocalLLM],
      [PythonBackend, LocalLLM, RapidAPI]}"
    by (rule python_stage_sites)
  then have order: "subseq (sites (snd ?out)) [PythonBackend, LocalLLM, RapidAPI]"
    by auto
  have "only_enabled ?c (snd ?out)"
    by (rule python_stage_enabled) simp
  then have en: "\<forall>st req. Fetch st req \<in> set (snd ?out) \<longrightarrow> enabled ?c st"
    by (simp add: only_enabled_def)
  have "stops_at_success rt ?out"
    by (rule python_stage_stops) simp
  then have stop: "\<forall>pre st req post v.
      snd ?out = pre @ Fetch st req # post \<and> try_at rt st req = Inr v \<longrightarrow>
      post = [] \<and> fst ?out = Inr v"
    by (simp only: stops_at_success_def)
  have every: "(\<forall>st req. Fetch st req \<in> set (snd ?out) \<longrightarrow>
       (\<exists>err. try_at rt st req = Inl err)) \<longrightarrow>
    sites (snd ?out) = filter (enabled ?c) [PythonBackend, LocalLLM, RapidAPI]"
    using python_stage_all_failed [of rt ?c s u] by (simp only: all_failed_def) blast
  from order en stop every show ?thesis
    unfolding gen by (intro conjI)
qed

theorem providers_in_order_once_witness:
  "snd (generateContent
          (rt_by_url [(python_default_url, Resolved unavailable)]
             (Resolved (ok_response chat_reply chat_reply_raw)))
          (env_flags True True (Some ''k'')) ''gpt-4o'' ''sys'' ''hi'') =
     [Fetch PythonBackend (python_request python_default_url ''sys'' ''hi'')] @
     Fetch LocalLLM (local_request local_default_url fixed_model ''sys'' ''hi'') # [] \<and>
   try_at (rt_by_url [(python_default_url, Resolved unavailable)]
             (Resolved (ok_response chat_reply chat_reply_raw)))
     LocalLLM (local_request local_default_url fixed_model ''sys'' ''hi'') =
     Inr (Val (JStr ''Hello'')) \<and>
   fst (generateContent
          (rt_by_url [(python_default_url, Resolved unavailable)]
             (Resolved (ok_response chat_reply chat_reply_raw)))
          (env_flags True True (Some ''k'')) ''gpt-4o'' ''sys'' ''hi'') =
     Inr (Val (JStr ''Hello'')) \<and>
   subseq (sites (snd (generateContent
          (rt_by_url [(python_default_url, Resolved unavailable)]
             (Resolved (ok_response chat_reply chat_reply_raw)))
          (env_flags True True (Some ''k'')) ''gpt-4o'' ''sys'' ''hi'')))
     [PythonBackend, LocalLLM, RapidAPI]"
proof -
  let ?rt = "rt_by_url [(python_default_url, Resolved unavailable)]
             (Resolved (ok_response chat_reply chat_reply_raw))"
  let ?e = "env_flags True True (Some ''k'')"
  let ?p = "python_request python_default_url ''sys'' ''hi''"
  let ?l = "local_request local_default_url fixed_model ''sys'' ''hi''"
  have py: "python_try ?rt ?p = Inl (JsError ''Python Server Error: Service Unavailable'')"
    by (simp add: python_try_def rt_by_url_def python_request_def unavailable_def)
  have loc: "try_at ?rt LocalLLM ?l = Inr (Val (JStr ''Hello''))"
    by (simp add: local_try_def rt_by_url_def local_request_def python_default_url_def
        local_default_url_def ok_response_def choices_content_def then_get_def chat_reply_def)
  have tr: "snd (generateContent ?rt ?e ''gpt-4o'' ''sys'' ''hi'') =
      [Fetch PythonBackend ?p] @ Fetch LocalLLM ?l # []"
    using py loc
    by (simp add: generateContent_def python_stage_def local_stage_def read_config_def
        env_flags_def Let_def or_default_def truthy_def python_default_url_def [symmetric]
        local_default_url_def [symmetric])
  from providers_in_order_once [of ?rt ?e "''gpt-4o''" "''sys''" "''hi''"] tr loc
  show ?thesis by blast
qed

text \<open>
  C8, as stated, fails: with only the Python backend enabled, a 2xx reply whose body is the
  JSON text \<open>null\<close> parses and has no \<open>text\<close> field, yet the value is not \<open>undefined\<close>:
  \<open>data.text\<close> throws and the catch block returns the "Python Backend Error" string.
\<close>

theorem python_null_body_error_counterexample:
  "ok (ok_response JNull ''null'') \<and>
   resp_json (ok_response JNull ''null'') = Inr JNull \<and>
   fst (generateContent (rt_always (Resolved (ok_response JNull ''null'')))
          (env_flags True False None) ''gpt-4o'' ''sys'' ''hi'') =
     Inr (Val (JStr (python_error_text
       (JsError ''Cannot read properties of null (reading text)''))))"
  by (simp add: generateContent_def python_stage_def read_config_def env_flags_def Let_def
      python_try_def rt_always_def ok_response_def truthy_def engine_message_def)

text \<open>
  C8, amended: on a 2xx python-backend reply whose body parses to a JSON value other than
  \<open>null\<close>, generateContent returns \<open>data.text\<close> without any validation: the field of an
  object that has it, whatever it holds (so the empty string if \<open>text\<close> is the empty
  string), and \<open>undefined\<close> if the body has no \<open>text\<close> field.
\<close>

theorem python_text_unvalidated:
  assumes "USE_PYTHON_BACKEND e = Some ''true''"
    and "fetch rt (python_request (pythonUrl (read_config e m)) s u) = Resolved r"
    and "ok r"
    and "resp_json r = Inr data"
    and "data \<noteq> JNull"
  shows "fst (generateContent rt e m s u) =
           Inr (case data of
                  JObj kvs \<Rightarrow> (case map_of kvs ''text'' of None \<Rightarrow> Undefined | Some x \<Rightarrow> Val x)
                | _ \<Rightarrow> Undefined)"
proof -
  from assms(5)
  have "get_prop (type_error_message rt) (Val data) Text =
      Inr (case data of
             JObj kvs \<Rightarrow> (case map_of kvs ''text'' of None \<Rightarrow> Undefined | Some x \<Rightarrow> Val x)
           | _ \<Rightarrow> Undefined)"
    by (cases data) simp_all
  with assms(2-4)
  have "python_try rt (python_request (pythonUrl (read_config e m)) s u) =
      Inr (case data of
             JObj kvs \<Rightarrow> (case map_of kvs ''text'' of None \<Rightarrow> Undefined | Some x \<Rightarrow> Val x)
           | _ \<Rightarrow> Undefined)"
    by (simp add: python_try_def)
  with assms(1) show ?thesis
    by (simp add: generateContent_def python_stage_def Let_def read_config_def)
qed

theorem python_text_unvalidated_witness:
  "USE_PYTHON_BACKEND (env_flags True False None) = Some ''true'' \<and>
   fst (generateContent (rt_always (Resolved (ok_response (JObj []) ''{}'')))
          (env_flags True False None) ''gpt-4o'' ''sys'' ''hi'') = Inr Undefined \<and>
   fst (generateContent (rt_always (Resolved (ok_response (text_reply []) empty_text_raw)))
          (env_flags True False None) ''gpt-4o'' ''sys'' ''hi'') = Inr (Val (JStr []))"
proof -
  let ?e = "env_flags True False None"
  let ?r1 = "ok_response (JObj []) ''{}''"
  let ?r2 = "ok_response (text_reply []) empty_text_raw"
  have h1: "USE_PYTHON_BACKEND ?e = Some ''true''"
    by (simp add: env_flags_def)
  have f1: "fetch (rt_always (Resolved ?r1))
      (python_request (pythonUrl (read_config ?e ''gpt-4o'')) ''sys'' ''hi'') = Resolved ?r1"
    and f2: "fetch (rt_always (Resolved ?r2))
      (python_request (pythonUrl (read_config ?e ''gpt-4o'')) ''sys'' ''hi'') = Resolved ?r2"
    by (simp_all add: rt_always_def)
  have o1: "ok ?r1" and j1: "resp_json ?r1 = Inr (JObj [])"
    and o2: "ok ?r2" and j2: "resp_json ?r2 = Inr (text_reply [])"
    by (simp_all add: ok_response_def)
  have n1: "JObj [] \<noteq> JNull" and n2: "text_reply [] \<noteq> JNull"
    by (simp_all add: text_reply_def)
  from python_text_unvalidated [OF h1 f1 o1 j1 n1] python_text_unvalidated [OF h1 f2 o2 j2 n2] h1
  show ?thesis by (simp add: text_reply_def)
qed

text \<open>
  C9: if USE_LOCAL_LLM and USE_PYTHON_BACKEND are both 'true', both try blocks throw and
  RAPIDAPI_KEY is absent or empty, generateContent returns the configuration diagnostic,
  written out here in full (the fixed model in the "ollama run" line, the flags reading
  \<open>true\<close>, \<open>true\<close>, \<open>false\<close>), after the python and the local POST and nothing else; the
  result is neither the mock placeholder nor a string that starts with "**Python Backend
  Error**"; and in any run at all, the timer of \<open>mockResponse\<close> is set only when
  USE_PYTHON_BACKEND is not 'true' and RAPIDAPI_KEY is absent or empty.
\<close>

theorem both_failed_diagnostic:
  "(USE_LOCAL_LLM e = Some ''true'' \<and> USE_PYTHON_BACKEND e = Some ''true'' \<and>
    \<not> truthy (RAPIDAPI_KEY e) \<and>
    python_try rt (python_request (pythonUrl (read_config e m)) s u) = Inl perr \<and>
    local_try rt (local_request (localUrl (read_config e m)) fixed_model s u) = Inl lerr \<longrightarrow>
    (let l = (case LOCAL_LLM_URL e of
              None \<Rightarrow> ''http://localhost:11434/v1/chat/completions''
            | Some x \<Rightarrow> if x = [] then ''http://localhost:11434/v1/chat/completions'' else x)
     in generateContent rt e m s u =
          (Inr (Val (JStr (
               ''# Configuration Required\<newline>'' @
               ''\<newline>'' @
               ''I cannot generate real output because no AI provider is configured or reachable.\<newline>'' @
               ''\<newline>'' @
               ''**1. Local LLM (Recommended)**\<newline>'' @
               ''- Ensure your local server (e.g., Ollama) is running at `'' @ l @ ''`.\<newline>'' @
               ''- Run: `ollama run meta-llama/Llama-4-Scout-17B-16E-Instruct`\<newline>'' @
               ''- Restart this app: `npm run dev`\<newline>'' @
               ''\<newline>'' @
               ''**2. RapidAPI**\<newline>'' @
               ''- Add `RAPIDAPI_KEY` to your `.env.local` file.\<newline>'' @
               ''\<newline>'' @
               ''**3. Python Backend (Hugging Face)**\<newline>'' @
               ''- Ensure `HF_TOKEN` and `USE_PYTHON_BACKEND=true` are in `.env.local`.\<newline>'' @
               ''- Ensure the python server is running: `python3 server.py`\<newline>'' @
               ''\<newline>'' @
               ''**4. Debug Info**\<newline>'' @
               ''- Local URL: '' @ l @ ''\<newline>'' @
               ''- Use Local: true\<newline>'' @
               ''- Use Python: true\<newline>'' @
               ''- Rapid Key Found: false\<newline>''))),
           [Fetch PythonBackend (python_request (pythonUrl (read_config e m)) s u),
            Fetch LocalLLM (local_request l fixed_model s u)])) \<and>
    (\<forall>t. fst (generateContent rt e m s u) = Inr (Val (JStr t)) \<longrightarrow>
       t \<noteq> ''**[Mock Generated Content]**...'' \<and>
       \<not> prefix ''**Python Backend Error**'' t)) \<and>
   (SetTimeout n \<in> set (snd (generateContent rt e m s u)) \<longrightarrow>
    USE_PYTHON_BACKEND e \<noteq> Some ''true'' \<and> \<not> truthy (RAPIDAPI_KEY e))"
proof (intro conjI impI allI)
  assume h: "USE_LOCAL_LLM e = Some ''true'' \<and> USE_PYTHON_BACKEND e = Some ''true'' \<and>
    \<not> truthy (RAPIDAPI_KEY e) \<and>
    python_try rt (python_request (pythonUrl (read_config e m)) s u) = Inl perr \<and>
    local_try rt (local_request (localUrl (read_config e m)) fixed_model s u) = Inl lerr"
  then have run: "generateContent rt e m s u =
      (Inr (Val (JStr (diagnostic (localUrl (read_config e m)) fixed_model True True False))),
       [Fetch PythonBackend (python_request (pythonUrl (read_config e m)) s u),
        Fetch LocalLLM (local_request (localUrl (read_config e m)) fixed_model s u)])"
    by (auto simp: generateContent_def python_stage_def local_stage_def rapid_stage_def
        final_stage_def Let_def read_config_def truthy_def split: option.splits)
  then show "let l = (case LOCAL_LLM_URL e of
              None \<Rightarrow> ''http://localhost:11434/v1/chat/completions''
            | Some x \<Rightarrow> if x = [] then ''http://localhost:11434/v1/chat/completions'' else x)
     in generateContent rt e m s u =
          (Inr (Val (JStr (
               ''# Configuration Required\<newline>'' @
               ''\<newline>'' @
               ''I cannot generate real output because no AI provider is configured or reachable.\<newline>'' @
               ''\<newline>'' @
               ''**1. Local LLM (Recommended)**\<newline>'' @
               ''- Ensure your local server (e.g., Ollama) is running at `'' @ l @ ''`.\<newline>'' @
               ''- Run: `ollama run meta-llama/Llama-4-Scout-17B-16E-Instruct`\<newline>'' @
               ''- Restart this app: `npm run dev`\<newline>'' @
               ''\<newline>'' @
               ''**2. RapidAPI**\<newline>'' @
               ''- Add `RAPIDAPI_KEY` to your `.env.local` file.\<newline>'' @
               ''\<newline>'' @
               ''**3. Python Backend (Hugging Face)**\<newline>'' @
               ''- Ensure `HF_TOKEN` and `USE_PYTHON_BACKEND=true` are in `.env.local`.\<newline>'' @
               ''- Ensure the python server is running: `python3 server.py`\<newline>'' @
               ''\<newline>'' @
               ''**4. Debug Info**\<newline>'' @
               ''- Local URL: '' @ l @ ''\<newline>'' @
               ''- Use Local: true\<newline>'' @
               ''- Use Python: true\<newline>'' @
               ''- Rapid Key Found: false\<newline>''))),
           [Fetch PythonBackend (python_request (pythonUrl (read_config e m)) s u),
            Fetch LocalLLM (local_request l fixed_model s u)])"
    by (simp add: Let_def diagnostic_def diagnostic_hints_def diagnostic_debug_def
        show_bool_def read_config_def or_default_def fixed_model_def split: option.split)
  fix t
  assume "fst (generateContent rt e m s u) = Inr (Val (JStr t))"
  with run
  have t: "t = diagnostic (localUrl (read_config e m)) fixed_model True True False"
    by simp
  show "t \<noteq> ''**[Mock Generated Content]**...''"
    unfolding t by (simp add: diagnostic_def diagnostic_hints_def)
  show "\<not> prefix ''**Python Backend Error**'' t"
    unfolding t by (simp add: diagnostic_def diagnostic_hints_def)
next
  assume "SetTimeout n \<in> set (snd (generateContent rt e m s u))"
  then have "SetTimeout n \<in> set (snd (python_stage rt (read_config e m) s u []))"
    by (simp add: generateContent_def)
  from python_stage_timer [OF this]
  show "USE_PYTHON_BACKEND e \<noteq> Some ''true''" and "\<not> truthy (RAPIDAPI_KEY e)"
    by (simp_all add: read_config_def)
qed

theorem both_failed_diagnostic_witness:
  "generateContent (rt_always (Resolved unavailable)) (env_flags True True None)
     ''gpt-4o'' ''sys'' ''hi'' =
     (Inr (Val (JStr (
          ''# Configuration Required\<newline>'' @
          ''\<newline>'' @
          ''I cannot generate real output because no AI provider is configured or reachable.\<newline>'' @
          ''\<newline>'' @
          ''**1. Local LLM (Recommended)**\<newline>'' @
          ''- Ensure your local server (e.g., Ollama) is running at `http://localhost:11434/v1/chat/completions`.\<newline>'' @
          ''- Run: `ollama run meta-llama/Llama-4-Scout-17B-16E-Instruct`\<newline>'' @
          ''- Restart this app: `npm run dev`\<newline>'' @
          ''\<newline>'' @
          ''**2. RapidAPI**\<newline>'' @
          ''- Add `RAPIDAPI_KEY` to your `.env.local` file.\<newline>'' @
          ''\<newline>'' @
          ''**3. Python Backend (Hugging Face)**\<newline>'' @
          ''- Ensure `HF_TOKEN` and `USE_PYTHON_BACKEND=true` are in `.env.local`.\<newline>'' @
          ''- Ensure the python server is running: `python3 server.py`\<newline>'' @
          ''\<newline>'' @
          ''**4. Debug Info**\<newline>'' @
          ''- Local URL: http://localhost:11434/v1/chat/completions\<newline>'' @
          ''- Use Local: true\<newline>'' @
          ''- Use Python: true\<newline>'' @
          ''- Rapid Key Found: false\<newline>''))),
      [Fetch PythonBackend (python_request python_default_url ''sys'' ''hi''),
       Fetch LocalLLM (local_request local_default_url fixed_model ''sys'' ''hi'')]) \<and>
   SetTimeout 1500 \<in>
     set (snd (generateContent (rt_always (Resolved unavailable)) (env_flags False True None)
                 ''gpt-4o'' ''sys'' ''hi'')) \<and>
   USE_PYTHON_BACKEND (env_flags False True None) \<noteq> Some ''true'' \<and>
   \<not> truthy (RAPIDAPI_KEY (env_flags False True None))"
proof -
  let ?rt = "rt_always (Resolved unavailable)"
  let ?e = "env_flags True True None"
  let ?e' = "env_flags False True None"
  have urls: "pythonUrl (read_config ?e ''gpt-4o'') = python_default_url"
    "localUrl (read_config ?e ''gpt-4o'') = local_default_url"
    "localUrl (read_config ?e' ''gpt-4o'') = local_default_url"
    by (simp_all add: read_config_def env_flags_def or_default_def python_default_url_def
        local_default_url_def)
  have flags: "USE_LOCAL_LLM ?e = Some ''true''" "USE_PYTHON_BACKEND ?e = Some ''true''"
    "\<not> truthy (RAPIDAPI_KEY ?e)"
    by (simp_all add: env_flags_def truthy_def)
  have u: "LOCAL_LLM_URL ?e = None"
    by (simp add: env_flags_def)
  have py: "python_try ?rt (python_request (pythonUrl (read_config ?e ''gpt-4o'')) ''sys'' ''hi'') =
      Inl (JsError ''Python Server Error: Service Unavailable'')"
    by (simp add: python_try_def rt_always_def unavailable_def)
  have loc: "local_try ?rt (local_request (localUrl (read_config ?e ''gpt-4o'')) fixed_model
      ''sys'' ''hi'') = Inl (JsError ''Local LLM Error: Service Unavailable'')"
    by (simp add: local_try_def rt_always_def unavailable_def)
  have loc': "local_try ?rt (local_request local_default_url fixed_model ''sys'' ''hi'') =
      Inl (JsError ''Local LLM Error: Service Unavailable'')"
    by (simp add: local_try_def rt_always_def unavailable_def)
  have timer: "SetTimeout 1500 \<in> set (snd (generateContent ?rt ?e' ''gpt-4o'' ''sys'' ''hi''))"
    using loc' urls(3)
    by (simp add: generateContent_def python_stage_def local_stage_def mockResponse_def
        read_config_def env_flags_def Let_def truthy_def)
  note thm1 = both_failed_diagnostic [of ?e ?rt "''gpt-4o''" "''sys''" "''hi''"
      "JsError ''Python Server Error: Service Unavailable''"
      "JsError ''Local LLM Error: Service Unavailable''" 1500]
  note thm2 = both_failed_diagnostic [of ?e' ?rt "''gpt-4o''" "''sys''" "''hi''" perr lerr 1500]
  from thm1 flags py loc
  have run: "generateContent ?rt ?e ''gpt-4o'' ''sys'' ''hi'' =
     (Inr (Val (JStr (
          ''# Configuration Required\<newline>'' @
          ''\<newline>'' @
          ''I cannot generate real output because no AI provider is configured or reachable.\<newline>'' @
          ''\<newline>'' @
          ''**1. Local LLM (Recommended)**\<newline>'' @
          ''- Ensure your local server (e.g., Ollama) is running at `http://localhost:11434/v1/chat/completions`.\<newline>'' @
          ''- Run: `ollama run meta-llama/Llama-4-Scout-17B-16E-Instruct`\<newline>'' @
          ''- Restart this app: `npm run dev`\<newline>'' @
          ''\<newline>'' @
          ''**2. RapidAPI**\<newline>'' @
          ''- Add `RAPIDAPI_KEY` to your `.env.local` file.\<newline>'' @
          ''\<newline>'' @
          ''**3. Python Backend (Hugging Face)**\<newline>'' @
          ''- Ensure `HF_TOKEN` and `USE_PYTHON_BACKEND=true` are in `.env.local`.\<newline>'' @
          ''- Ensure the python server is running: `python3 server.py`\<newline>'' @
          ''\<newline>'' @
          ''**4. Debug Info**\<newline>'' @
          ''- Local URL: http://localhost:11434/v1/chat/completions\<newline>'' @
          ''- Use Local: true\<newline>'' @
          ''- Use Python: true\<newline>'' @
          ''- Rapid Key Found: false\<newline>''))),
      [Fetch PythonBackend (python_request python_default_url ''sys'' ''hi''),
       Fetch LocalLLM (local_request local_default_url fixed_model ''sys'' ''hi'')])"
    by (simp add: Let_def u urls(1) local_default_url_def)
  from thm2 timer
  have off: "USE_PYTHON_BACKEND ?e' \<noteq> Some ''true'' \<and> \<not> truthy (RAPIDAPI_KEY ?e')"
    by blast
  from run timer off show ?thesis by (intro conjI) simp_all
qed

text \<open>
  C10: the diagnostic contains the line "- Run: `ollama run " followed by the target
  model; when neither USE_LOCAL_LLM nor USE_PYTHON_BACKEND is 'true' and RapidAPI is
  either not configured or its try block throws, the result is the diagnostic filled with
  the \<open>model\<close> argument itself, so two calls that differ only in \<open>model\<close> return different
  strings.
\<close>

theorem diagnostic_varies_with_model:
  assumes "USE_LOCAL_LLM e \<noteq> Some ''true''"
    and "USE_PYTHON_BACKEND e \<noteq> Some ''true''"
    and "\<not> truthy (RAPIDAPI_KEY e) \<or>
         (\<exists>key err. RAPIDAPI_KEY e = Some key \<and>
                     rapid_try rt (rapid_request key s u) = Inl err)"
  shows "fst (generateContent rt e m s u) =
           Inr (Val (JStr (diagnostic (localUrl (read_config e m)) m False False
                             (truthy (RAPIDAPI_KEY e))))) \<and>
         sublist (''- Run: `ollama run '' @ m @ ''`'')
           (diagnostic (localUrl (read_config e m)) m False False (truthy (RAPIDAPI_KEY e))) \<and>
         (fst (generateContent rt e m s u) = fst (generateContent rt e m' s u) \<longrightarrow> m = m')"
proof -
  have res: "fst (generateContent rt e x s u) =
      Inr (Val (JStr (diagnostic (localUrl (read_config e x)) x False False
                        (truthy (RAPIDAPI_KEY e)))))" for x
    using assms
    by (auto simp: generateContent_def python_stage_def local_stage_def rapid_stage_def
        final_stage_def Let_def read_config_def truthy_def split: option.splits)
  have url: "localUrl (read_config e m') = localUrl (read_config e m)"
    by (simp add: read_config_def)
  have line: "sublist (''- Run: `ollama run '' @ m @ ''`'')
      (diagnostic (localUrl (read_config e m)) m False False (truthy (RAPIDAPI_KEY e)))"
    unfolding sublist_def diagnostic_def diagnostic_hints_def
    by (rule exI [where x =
          "''# Configuration Required\<newline>'' @
           ''\<newline>'' @
           ''I cannot generate real output because no AI provider is configured or reachable.\<newline>'' @
           ''\<newline>'' @
           ''**1. Local LLM (Recommended)**\<newline>'' @
           ''- Ensure your local server (e.g., Ollama) is running at `'' @
           localUrl (read_config e m) @ ''`.\<newline>''"],
        rule exI [where x =
          "''\<newline>'' @
           ''- Restart this app: `npm run dev`\<newline>'' @
           ''\<newline>'' @
           ''**2. RapidAPI**\<newline>'' @
           ''- Add `RAPIDAPI_KEY` to your `.env.local` file.\<newline>'' @
           ''\<newline>'' @
           ''**3. Python Backend (Hugging Face)**\<newline>'' @
           ''- Ensure `HF_TOKEN` and `USE_PYTHON_BACKEND=true` are in `.env.local`.\<newline>'' @
           ''- Ensure the python server is running: `python3 server.py`\<newline>'' @
           ''\<newline>'' @
           diagnostic_debug (localUrl (read_config e m)) False False (truthy (RAPIDAPI_KEY e))"])
      simp
  have "m = m'" if same: "fst (generateContent rt e m s u) = fst (generateContent rt e m' s u)"
  proof -
    from same
    have "Inr (Val (JStr (diagnostic (localUrl (read_config e m)) m False False
                            (truthy (RAPIDAPI_KEY e))))) =
        (Inr (Val (JStr (diagnostic (localUrl (read_config e m')) m' False False
                            (truthy (RAPIDAPI_KEY e))))) :: js_error + jsval)"
      by (simp only: res)
    then have "diagnostic (localUrl (read_config e m)) m False False (truthy (RAPIDAPI_KEY e)) =
        diagnostic (localUrl (read_config e m)) m' False False (truthy (RAPIDAPI_KEY e))"
      by (simp only: url sum.inject jsval.inject json.inject)
    then show ?thesis by (rule diagnostic_inject)
  qed
  with res [of m] line show ?thesis by blast
qed

theorem diagnostic_varies_with_model_witness:
  "USE_LOCAL_LLM (env_flags False False (Some ''k'')) \<noteq> Some ''true'' \<and>
   USE_PYTHON_BACKEND (env_flags False False (Some ''k'')) \<noteq> Some ''true'' \<and>
   rapid_try (rt_always (Resolved unavailable)) (rapid_request ''k'' ''sys'' ''hi'') =
     Inl (JsError ''RapidAPI Error: upstream down'') \<and>
   fst (generateContent (rt_always (Resolved unavailable)) (env_flags False False (Some ''k''))
          ''gpt-4o'' ''sys'' ''hi'') =
     Inr (Val (JStr (diagnostic local_default_url ''gpt-4o'' False False True))) \<and>
   fst (generateContent (rt_always (Resolved unavailable)) (env_flags False False (Some ''k''))
          ''gpt-4o'' ''sys'' ''hi'') \<noteq>
   fst (generateContent (rt_always (Resolved unavailable)) (env_flags False False (Some ''k''))
          ''gpt-4'' ''sys'' ''hi'')"
proof -
  let ?rt = "rt_always (Resolved unavailable)"
  let ?e = "env_flags False False (Some ''k'')"
  have url: "localUrl (read_config ?e ''gpt-4o'') = local_default_url"
    by (simp add: read_config_def env_flags_def or_default_def local_default_url_def)
  have h1: "USE_LOCAL_LLM ?e \<noteq> Some ''true''"
    and h2: "USE_PYTHON_BACKEND ?e \<noteq> Some ''true''"
    and key: "RAPIDAPI_KEY ?e = Some ''k''" "truthy (RAPIDAPI_KEY ?e)"
    by (simp_all add: env_flags_def truthy_def)
  have rapid: "rapid_try ?rt (rapid_request ''k'' ''sys'' ''hi'') =
      Inl (JsError ''RapidAPI Error: upstream down'')"
    by (simp add: rapid_try_def rt_always_def unavailable_def)
  from key rapid
  have h3: "\<not> truthy (RAPIDAPI_KEY ?e) \<or>
      (\<exists>key err. RAPIDAPI_KEY ?e = Some key \<and>
                  rapid_try ?rt (rapid_request key ''sys'' ''hi'') = Inl err)"
    by blast
  have neq: "''gpt-4o'' \<noteq> ''gpt-4''"
    by simp
  from diagnostic_varies_with_model [OF h1 h2 h3, of "''gpt-4o''" "''gpt-4''"] h1 h2 rapid key url
      neq
  show ?thesis by auto
qed


end
